theory Spec2Isabelle
  imports Main
begin

section \<open>JavaScript values\<close>

text \<open>
  The gateway (\<^verbatim>\<open>frontend/src/services/api.ts\<close>) is TypeScript over untyped JavaScript
  values: \<^verbatim>\<open>handleAPIError\<close> takes \<^verbatim>\<open>error: any\<close>, and \<^verbatim>\<open>getClauses\<close> enumerates
  whatever object it is given. A value is modelled by the datatype below.
  \<^item> \<open>JNum n\<close> is a number that is a safe integer (HTTP statuses, pages, identifiers):
    one of the integers from \<open>-(2^53 - 1)\<close> to \<open>2^53 - 1\<close>, each of which is a double
    exactly and is printed with all its digits. \<open>JNaN\<close> is the one other number the
    truthiness test treats specially. Fractions, infinities and the integers beyond the
    safe range (which JavaScript rounds, and prints with an exponent from \<open>10^21\<close> on) are
    outside the model. \<open>safe_int n\<close> is the number \<open>n\<close> for \<open>n\<close> in the safe range, where
    \<open>integer_value (safe_int n) = n\<close>; of \<open>safe_int n\<close> for any other \<open>n\<close> nothing is known
    and nothing is stated.
  \<^item> \<open>JStr s\<close> is a string, held as the bytes of its UTF-8 encoding.
  \<^item> \<open>JObj ps\<close> is a plain object (its prototype is \<^verbatim>\<open>Object.prototype\<close>), held as the
    list of its own properties in enumeration order (the order of \<^verbatim>\<open>Object.entries\<close>).
    A JavaScript object has no two properties of one name; a lookup reads the first entry
    of that name. No value of the model is a function, so no property is callable but
    the methods a value inherits.
\<close>

typedef safe_integer = "{n :: int. - 9007199254740991 \<le> n \<and> n \<le> 9007199254740991}"
  morphisms integer_value safe_int
proof
  show "0 \<in> {n :: int. - 9007199254740991 \<le> n \<and> n \<le> 9007199254740991}"
    by simp
qed

datatype jsval =
    JUndefined
  | JNull
  | JBool bool
  | JNum safe_integer
  | JNaN
  | JStr string
  | JObj "(string \<times> jsval) list"

type_synonym js_object = "(string \<times> jsval) list"

text \<open>The one exception these sources can raise: reading a property of \<^verbatim>\<open>null\<close> or \<^verbatim>\<open>undefined\<close>.\<close>

datatype js_error = TypeError

text \<open>ToBoolean: what \<^verbatim>\<open>if (v)\<close> and \<^verbatim>\<open>v || w\<close> test.\<close>

fun truthy :: "jsval \<Rightarrow> bool" where
  "truthy JUndefined = False"
| "truthy JNull = False"
| "truthy (JBool b) = b"
| "truthy (JNum n) = (integer_value n \<noteq> 0)"
| "truthy JNaN = False"
| "truthy (JStr s) = (s \<noteq> [])"
| "truthy (JObj ps) = True"

text \<open>\<^verbatim>\<open>a || b\<close>: the left operand when it is truthy, the right one otherwise.\<close>

definition js_or :: "jsval \<Rightarrow> jsval \<Rightarrow> jsval" where
  "js_or a b = (if truthy a then a else b)"

text \<open>The property \<open>k\<close> of an object: \<^verbatim>\<open>undefined\<close> when the object has none.\<close>

definition field :: "js_object \<Rightarrow> string \<Rightarrow> jsval" where
  "field ps k = (case map_of ps k of None \<Rightarrow> JUndefined | Some v \<Rightarrow> v)"

text \<open>
  \<^verbatim>\<open>v.k\<close> for the property names these sources read (\<^verbatim>\<open>response\<close>, \<^verbatim>\<open>request\<close>, \<^verbatim>\<open>message\<close>,
  \<^verbatim>\<open>status\<close>, \<^verbatim>\<open>data\<close>, \<^verbatim>\<open>detail\<close>, \<^verbatim>\<open>error\<close>, \<^verbatim>\<open>error_code\<close>): a TypeError on \<^verbatim>\<open>null\<close> and
  \<^verbatim>\<open>undefined\<close>, the property on an object, and \<^verbatim>\<open>undefined\<close> on a boolean, number or
  string, whose prototypes define none of these names.
\<close>

fun get_prop :: "jsval \<Rightarrow> string \<Rightarrow> js_error + jsval" where
  "get_prop JUndefined k = Inl TypeError"
| "get_prop JNull k = Inl TypeError"
| "get_prop (JObj ps) k = Inr (field ps k)"
| "get_prop v k = Inr JUndefined"

text \<open>\<^verbatim>\<open>v?.k\<close>: \<^verbatim>\<open>undefined\<close> where \<^verbatim>\<open>v.k\<close> would throw.\<close>

definition get_prop_optional :: "jsval \<Rightarrow> string \<Rightarrow> jsval" where
  "get_prop_optional v k = (case get_prop v k of Inl e \<Rightarrow> JUndefined | Inr x \<Rightarrow> x)"

section \<open>Error normalization\<close>

text \<open>
  \<^verbatim>\<open>
  export const handleAPIError = (error: any) => {
    if (error.response) {
      const { status, data } = error.response;
      return { message: data.detail || data.error || 'An error occurred',
               status, code: data.error_code };
    } else if (error.request) {
      return { message: 'Network error - please check your connection',
               status: 0, code: 'NETWORK_ERROR' };
    } else {
      return { message: error.message || 'An unexpected error occurred',
               status: -1, code: 'UNKNOWN_ERROR' };
    }
  };
  \<close>
  The result is \<open>Inl TypeError\<close> where the JavaScript throws, \<open>Inr\<close> of the returned
  object literal otherwise; \<open>js_bind\<close> runs the next step unless the last one threw.
\<close>

definition js_bind :: "js_error + 'a \<Rightarrow> ('a \<Rightarrow> js_error + 'b) \<Rightarrow> js_error + 'b" where
  "js_bind r f = (case r of Inl e \<Rightarrow> Inl e | Inr x \<Rightarrow> f x)"

definition handleAPIError :: "jsval \<Rightarrow> js_error + jsval" where
  "handleAPIError error =
     js_bind (get_prop error ''response'') (\<lambda>response.
       if truthy response then
         js_bind (get_prop response ''status'') (\<lambda>status.
         js_bind (get_prop response ''data'') (\<lambda>data.
         js_bind (get_prop data ''detail'') (\<lambda>detail.
         js_bind (if truthy detail then Inr detail
                  else js_bind (get_prop data ''error'') (\<lambda>err.
                         Inr (js_or err (JStr ''An error occurred'')))) (\<lambda>message.
         js_bind (get_prop data ''error_code'') (\<lambda>code.
           Inr (JObj [(''message'', message), (''status'', status), (''code'', code)]))))))
       else
         js_bind (get_prop error ''request'') (\<lambda>request.
           if truthy request then
             Inr (JObj [(''message'', JStr ''Network error - please check your connection''),
                        (''status'', JNum (safe_int 0)),
                        (''code'', JStr ''NETWORK_ERROR'')])
           else
             js_bind (get_prop error ''message'') (\<lambda>message.
               Inr (JObj [(''message'', js_or message (JStr ''An unexpected error occurred'')),
                          (''status'', JNum (safe_int (- 1))),
                          (''code'', JStr ''UNKNOWN_ERROR'')]))))"

text \<open>The shape of a Normalized Error: an object with exactly the properties
  \<^verbatim>\<open>message\<close>, \<^verbatim>\<open>status\<close> and \<^verbatim>\<open>code\<close>.\<close>

fun is_normalized :: "jsval \<Rightarrow> bool" where
  "is_normalized (JObj ps) = (map fst ps = [''message'', ''status'', ''code''])"
| "is_normalized v = False"

text \<open>
  The branch of \<^verbatim>\<open>handleAPIError\<close> a failure takes: the conditions of its
  \<^verbatim>\<open>if\<close> / \<^verbatim>\<open>else if\<close> / \<^verbatim>\<open>else\<close>, read in that order, with the exception the
  property reads can raise.
\<close>

datatype failure_case = ServerError | NetworkError | UnknownError

definition failure_case_of :: "jsval \<Rightarrow> js_error + failure_case" where
  "failure_case_of error =
     js_bind (get_prop error ''response'') (\<lambda>response.
       if truthy response then Inr ServerError
       else js_bind (get_prop error ''request'') (\<lambda>request.
              if truthy request then Inr NetworkError else Inr UnknownError))"

section \<open>Strings the platform produces\<close>

text \<open>
  \<^verbatim>\<open>Number.prototype.toString\<close> and template-literal conversion, on safe integers: the
  decimal digits, after a minus sign when the number is negative.
\<close>

definition digit_char :: "nat \<Rightarrow> char" where
  "digit_char d = ''0123456789'' ! d"

fun digits_of :: "nat \<Rightarrow> string" where
  "digits_of n = (if n < 10 then [digit_char n] else digits_of (n div 10) @ [digit_char (n mod 10)])"

definition number_toString :: "safe_integer \<Rightarrow> string" where
  "number_toString n =
     (if integer_value n < 0 then ''-'' @ digits_of (nat (- integer_value n))
      else digits_of (nat (integer_value n)))"

text \<open>
  An object that has a property of its own named \<^verbatim>\<open>toString\<close>. That property hides the
  method \<^verbatim>\<open>Object.prototype.toString\<close>, and its value, whatever it is, is not a function.
\<close>

fun overrides_toString :: "jsval \<Rightarrow> bool" where
  "overrides_toString (JObj ps) = (''toString'' \<in> set (map fst ps))"
| "overrides_toString v = False"

text \<open>
  \<^verbatim>\<open>value.toString()\<close>: a TypeError on \<^verbatim>\<open>null\<close> and \<^verbatim>\<open>undefined\<close>, which have no
  properties; the string itself, the decimal numeral, \<^verbatim>\<open>NaN\<close>, \<^verbatim>\<open>true\<close>/\<^verbatim>\<open>false\<close>; for an
  object, \<^verbatim>\<open>[object Object]\<close> from the inherited method, and a TypeError when a property
  of its own named \<^verbatim>\<open>toString\<close> stands in the way (\<^verbatim>\<open>value.toString is not a function\<close>).
\<close>

fun js_toString :: "jsval \<Rightarrow> js_error + string" where
  "js_toString JUndefined = Inl TypeError"
| "js_toString JNull = Inl TypeError"
| "js_toString (JBool b) = Inr (if b then ''true'' else ''false'')"
| "js_toString (JNum n) = Inr (number_toString n)"
| "js_toString JNaN = Inr ''NaN''"
| "js_toString (JStr s) = Inr s"
| "js_toString (JObj ps) =
     (if ''toString'' \<in> set (map fst ps) then Inl TypeError else Inr ''[object Object]'')"

text \<open>Joining strings with a separator, as \<^verbatim>\<open>Array.prototype.join\<close> does.\<close>

fun join :: "string \<Rightarrow> string list \<Rightarrow> string" where
  "join sep [] = []"
| "join sep [x] = x"
| "join sep (x # y # ys) = x @ sep @ join sep (y # ys)"

text \<open>
  \<^verbatim>\<open>URLSearchParams\<close>: a list of name-value pairs; \<^verbatim>\<open>append\<close> adds one at the end and
  \<^verbatim>\<open>toString\<close> is the \<^verbatim>\<open>application/x-www-form-urlencoded\<close> serializer of the URL
  Standard: a byte is kept when it is an ASCII letter or digit or one of \<^verbatim>\<open>* - . _\<close>, a
  space becomes \<^verbatim>\<open>+\<close>, any other byte becomes \<^verbatim>\<open>%\<close> and two upper-case hex digits; a
  pair is \<^verbatim>\<open>name=value\<close> and pairs are joined by \<^verbatim>\<open>&\<close>.
\<close>

type_synonym URLSearchParams = "(string \<times> string) list"

definition URLSearchParams_append :: "URLSearchParams \<Rightarrow> string \<Rightarrow> string \<Rightarrow> URLSearchParams" where
  "URLSearchParams_append sp k v = sp @ [(k, v)]"

definition urlencoded_keep :: "char \<Rightarrow> bool" where
  "urlencoded_keep c =
     (let n = (of_char c :: nat) in
        (48 \<le> n \<and> n \<le> 57) \<or> (65 \<le> n \<and> n \<le> 90) \<or> (97 \<le> n \<and> n \<le> 122)
        \<or> n = 42 \<or> n = 45 \<or> n = 46 \<or> n = 95)"

definition hex_upper :: "nat \<Rightarrow> char" where
  "hex_upper d = ''0123456789ABCDEF'' ! d"

definition urlencode_byte :: "char \<Rightarrow> string" where
  "urlencode_byte c =
     (if c = CHR '' '' then ''+''
      else if urlencoded_keep c then [c]
      else [CHR ''%'', hex_upper ((of_char c :: nat) div 16), hex_upper ((of_char c :: nat) mod 16)])"

definition urlencode :: "string \<Rightarrow> string" where
  "urlencode s = concat (map urlencode_byte s)"

definition URLSearchParams_toString :: "URLSearchParams \<Rightarrow> string" where
  "URLSearchParams_toString sp = join ''&'' (map (\<lambda>(k, v). urlencode k @ ''='' @ urlencode v) sp)"

text \<open>
  \<^verbatim>\<open>JSON.stringify\<close>, by which the HTTP client serializes an object body: \<^verbatim>\<open>undefined\<close>
  has no JSON text, and a property whose value is \<^verbatim>\<open>undefined\<close> is left out of its
  object. A string is quoted, with \<^verbatim>\<open>"\<close>, \<^verbatim>\<open>\\<close> and the control characters escaped.
\<close>

definition hex_lower :: "nat \<Rightarrow> char" where
  "hex_lower d = ''0123456789abcdef'' ! d"

definition json_escape :: "char \<Rightarrow> string" where
  "json_escape c =
     (let n = (of_char c :: nat) in
        if n = 34 then [CHR 0x5C, CHR 0x22]
        else if n = 92 then [CHR 0x5C, CHR 0x5C]
        else if n = 8 then [CHR 0x5C, CHR ''b'']
        else if n = 9 then [CHR 0x5C, CHR ''t'']
        else if n = 10 then [CHR 0x5C, CHR ''n'']
        else if n = 12 then [CHR 0x5C, CHR ''f'']
        else if n = 13 then [CHR 0x5C, CHR ''r'']
        else if n < 32 then [CHR 0x5C, CHR ''u'', CHR ''0'', CHR ''0'', hex_lower (n div 16), hex_lower (n mod 16)]
        else [c])"

definition json_quote :: "string \<Rightarrow> string" where
  "json_quote s = [CHR 0x22] @ concat (map json_escape s) @ [CHR 0x22]"

fun json_members :: "(string \<times> string option) list \<Rightarrow> string list" where
  "json_members [] = []"
| "json_members ((k, None) # ms) = json_members ms"
| "json_members ((k, Some t) # ms) = (json_quote k @ '':'' @ t) # json_members ms"

primrec JSON_stringify :: "jsval \<Rightarrow> string option" where
  "JSON_stringify JUndefined = None"
| "JSON_stringify JNull = Some ''null''"
| "JSON_stringify (JBool b) = Some (if b then ''true'' else ''false'')"
| "JSON_stringify (JNum n) = Some (number_toString n)"
| "JSON_stringify JNaN = Some ''null''"
| "JSON_stringify (JStr s) = Some (json_quote s)"
| "JSON_stringify (JObj ps) =
     Some (''{'' @ join '','' (json_members (map (map_prod id JSON_stringify) ps)) @ ''}'')"

section \<open>The request gateway\<close>

subsection \<open>Configuration\<close>

text \<open>
  \<^verbatim>\<open>
  const API_BASE_URL = process.env.REACT_APP_API_URL || 'http://localhost:8000';
  const API_VERSION = process.env.REACT_APP_API_VERSION || 'v1';
  const api = axios.create({
    baseURL: `${API_BASE_URL}/api/${API_VERSION}`,
    timeout: 30000,
    headers: { 'Content-Type': 'application/json' },
  });
  \<close>
  An environment variable is a string or unset; \<^verbatim>\<open>||\<close> takes the default for an unset
  and for an empty one.
\<close>

record env =
  REACT_APP_API_URL :: "string option"
  REACT_APP_API_VERSION :: "string option"

definition env_or :: "string option \<Rightarrow> string \<Rightarrow> string" where
  "env_or v d = (case v of None \<Rightarrow> d | Some s \<Rightarrow> if s \<noteq> [] then s else d)"

definition API_BASE_URL :: "env \<Rightarrow> string" where
  "API_BASE_URL e = env_or (REACT_APP_API_URL e) ''http://localhost:8000''"

definition API_VERSION :: "env \<Rightarrow> string" where
  "API_VERSION e = env_or (REACT_APP_API_VERSION e) ''v1''"

text \<open>
  A request descriptor, as the HTTP client holds it: the method, the base URL and the
  relative URL (which the client's transport joins), the timeout in milliseconds, the
  headers and the body. A body is absent, a JavaScript object (sent as JSON), or a
  \<^verbatim>\<open>FormData\<close>: the list of its parts, each a name and a file. A \<^verbatim>\<open>File\<close> is held
  by its name and its bytes.
\<close>

datatype http_method = GET | POST | DELETE

datatype File = File string string

type_synonym FormData = "(string \<times> File) list"

definition FormData_append :: "FormData \<Rightarrow> string \<Rightarrow> File \<Rightarrow> FormData" where
  "FormData_append fd k f = fd @ [(k, f)]"

datatype request_data = NoData | ObjectData jsval | FormDataBody FormData

record config =
  "method" :: http_method
  baseURL :: string
  url :: string
  timeout :: nat
  headers :: "(string \<times> string) list"
  data :: request_data

text \<open>The instance \<^verbatim>\<open>api\<close>: the defaults every request starts from.\<close>

definition api :: "env \<Rightarrow> config" where
  "api e = \<lparr> method = GET,
             baseURL = API_BASE_URL e @ ''/api/'' @ API_VERSION e,
             url = [],
             timeout = 30000,
             headers = [(''Content-Type'', ''application/json'')],
             data = NoData \<rparr>"

text \<open>A header given with the request replaces the instance's header of that name.\<close>

definition merge_headers :: "(string \<times> string) list \<Rightarrow> (string \<times> string) list \<Rightarrow> (string \<times> string) list" where
  "merge_headers defaults given = given @ filter (\<lambda>(k, v). k \<notin> set (map fst given)) defaults"

text \<open>
  \<^verbatim>\<open>api.get(url)\<close>, \<^verbatim>\<open>api.post(url, data, {headers})\<close> and \<^verbatim>\<open>api.delete(url)\<close>: the
  descriptor each one dispatches.
\<close>

definition api_get :: "env \<Rightarrow> string \<Rightarrow> config" where
  "api_get e u = (api e)\<lparr> method := GET, url := u \<rparr>"

definition api_post :: "env \<Rightarrow> string \<Rightarrow> request_data \<Rightarrow> (string \<times> string) list \<Rightarrow> config" where
  "api_post e u d hs =
     (api e)\<lparr> method := POST, url := u, data := d, headers := merge_headers (headers (api e)) hs \<rparr>"

definition api_delete :: "env \<Rightarrow> string \<Rightarrow> config" where
  "api_delete e u = (api e)\<lparr> method := DELETE, url := u \<rparr>"

subsection \<open>Operations\<close>

text \<open>
  Each operation is modelled by the descriptor it hands to the instance. A parameter
  with a default (\<^verbatim>\<open>skip = 0\<close>) or a question mark (\<^verbatim>\<open>sessionId?\<close>) is an option:
  \<open>None\<close> is the argument left out, that is \<^verbatim>\<open>undefined\<close>. A parameter of type
  \<^verbatim>\<open>number\<close> (an identifier, an offset) is a safe integer.
\<close>

definition healthAPI_check :: "env \<Rightarrow> config" where
  "healthAPI_check e = api_get e ''/health''"

definition healthAPI_detailed :: "env \<Rightarrow> config" where
  "healthAPI_detailed e = api_get e ''/health/detailed''"

definition contractAPI_upload :: "env \<Rightarrow> File \<Rightarrow> config" where
  "contractAPI_upload e file =
     (let formData = FormData_append [] ''file'' file
      in api_post e ''/contracts/upload'' (FormDataBody formData)
           [(''Content-Type'', ''multipart/form-data'')])"

definition contractAPI_list :: "env \<Rightarrow> safe_integer option \<Rightarrow> safe_integer option \<Rightarrow> config" where
  "contractAPI_list e skip limit =
     api_get e (''/contracts/list?skip=''
                @ number_toString (case skip of None \<Rightarrow> safe_int 0 | Some n \<Rightarrow> n)
                @ ''&limit=''
                @ number_toString (case limit of None \<Rightarrow> safe_int 100 | Some n \<Rightarrow> n))"

definition contractAPI_getById :: "env \<Rightarrow> safe_integer \<Rightarrow> config" where
  "contractAPI_getById e contractId = api_get e (''/contracts/'' @ number_toString contractId)"

definition contractAPI_delete :: "env \<Rightarrow> safe_integer \<Rightarrow> config" where
  "contractAPI_delete e contractId = api_delete e (''/contracts/'' @ number_toString contractId)"

definition analysisAPI_analyze :: "env \<Rightarrow> safe_integer \<Rightarrow> string option \<Rightarrow> config" where
  "analysisAPI_analyze e contractId analysisType =
     api_post e ''/analysis/analyze''
       (ObjectData (JObj [(''contract_id'', JNum contractId),
                          (''analysis_type'', JStr (case analysisType of None \<Rightarrow> ''full'' | Some t \<Rightarrow> t))]))
       []"

definition analysisAPI_getRiskLevels :: "env \<Rightarrow> config" where
  "analysisAPI_getRiskLevels e = api_get e ''/analysis/risk-levels''"

definition analysisAPI_getClauseTypes :: "env \<Rightarrow> config" where
  "analysisAPI_getClauseTypes e = api_get e ''/analysis/clause-types''"

definition analysisAPI_getContractAnalysis :: "env \<Rightarrow> safe_integer \<Rightarrow> config" where
  "analysisAPI_getContractAnalysis e contractId =
     api_get e (''/analysis/contract/'' @ number_toString contractId @ ''/analysis'')"

text \<open>
  \<^verbatim>\<open>
  getClauses: (params = {}) => {
    const searchParams = new URLSearchParams();
    Object.entries(params).forEach(([key, value]) => {
      if (value !== undefined && value !== null) {
        searchParams.append(key, value.toString());
      }
    });
    return api.get(`/dataset/clauses?${searchParams.toString()}`);
  }
  \<close>
  \<open>forEach_entry\<close> is the loop: it threads \<^verbatim>\<open>searchParams\<close> through the entries and
  stops at the first exception.
\<close>

fun forEach_entry :: "js_object \<Rightarrow> URLSearchParams \<Rightarrow> js_error + URLSearchParams" where
  "forEach_entry [] sp = Inr sp"
| "forEach_entry ((key, v) # entries) sp =
     (if v \<noteq> JUndefined \<and> v \<noteq> JNull
      then js_bind (js_toString v) (\<lambda>s. forEach_entry entries (URLSearchParams_append sp key s))
      else forEach_entry entries sp)"

definition datasetAPI_getClauses :: "env \<Rightarrow> js_object option \<Rightarrow> js_error + config" where
  "datasetAPI_getClauses e params =
     js_bind (forEach_entry (case params of None \<Rightarrow> [] | Some ps \<Rightarrow> ps) [])
       (\<lambda>searchParams. Inr (api_get e (''/dataset/clauses?'' @ URLSearchParams_toString searchParams)))"

definition datasetAPI_getClauseById :: "env \<Rightarrow> safe_integer \<Rightarrow> config" where
  "datasetAPI_getClauseById e clauseId = api_get e (''/dataset/clauses/'' @ number_toString clauseId)"

definition datasetAPI_getClauseTypes :: "env \<Rightarrow> config" where
  "datasetAPI_getClauseTypes e = api_get e ''/dataset/clauses/types/list''"

definition datasetAPI_getRiskLevels :: "env \<Rightarrow> config" where
  "datasetAPI_getRiskLevels e = api_get e ''/dataset/clauses/risk-levels/list''"

definition datasetAPI_getStats :: "env \<Rightarrow> config" where
  "datasetAPI_getStats e = api_get e ''/dataset/stats''"

definition datasetAPI_reload :: "env \<Rightarrow> config" where
  "datasetAPI_reload e = api_post e ''/dataset/reload'' NoData []"

text \<open>
  \<^verbatim>\<open>
  sendMessage: (message: string, sessionId?: string, contractId?: number) =>
    api.post('/chat/ask', { message, session_id: sessionId, contract_id: contractId })
  \<close>
\<close>

definition chatAPI_sendMessage ::
  "env \<Rightarrow> string \<Rightarrow> string option \<Rightarrow> safe_integer option \<Rightarrow> config" where
  "chatAPI_sendMessage e message sessionId contractId =
     api_post e ''/chat/ask''
       (ObjectData (JObj [(''message'', JStr message),
                          (''session_id'', case sessionId of None \<Rightarrow> JUndefined | Some s \<Rightarrow> JStr s),
                          (''contract_id'', case contractId of None \<Rightarrow> JUndefined | Some n \<Rightarrow> JNum n)]))
       []"

definition chatAPI_getSuggestions :: "env \<Rightarrow> config" where
  "chatAPI_getSuggestions e = api_get e ''/chat/suggestions''"

text \<open>The JSON text of a request's body, when the body is an object.\<close>

definition json_body :: "config \<Rightarrow> string option" where
  "json_body c = (case data c of ObjectData v \<Rightarrow> JSON_stringify v | _ \<Rightarrow> None)"

text \<open>The operations of the five groups, with their arguments, and the descriptor of each.\<close>

datatype api_call =
    HealthCheck
  | HealthDetailed
  | ContractUpload File
  | ContractList "safe_integer option" "safe_integer option"
  | ContractGetById safe_integer
  | ContractDelete safe_integer
  | AnalysisAnalyze safe_integer "string option"
  | AnalysisGetRiskLevels
  | AnalysisGetClauseTypes
  | AnalysisGetContractAnalysis safe_integer
  | DatasetGetClauses "js_object option"
  | DatasetGetClauseById safe_integer
  | DatasetGetClauseTypes
  | DatasetGetRiskLevels
  | DatasetGetStats
  | DatasetReload
  | ChatSendMessage string "string option" "safe_integer option"
  | ChatGetSuggestions

fun request_of :: "env \<Rightarrow> api_call \<Rightarrow> js_error + config" where
  "request_of e HealthCheck = Inr (healthAPI_check e)"
| "request_of e HealthDetailed = Inr (healthAPI_detailed e)"
| "request_of e (ContractUpload f) = Inr (contractAPI_upload e f)"
| "request_of e (ContractList skip limit) = Inr (contractAPI_list e skip limit)"
| "request_of e (ContractGetById i) = Inr (contractAPI_getById e i)"
| "request_of e (ContractDelete i) = Inr (contractAPI_delete e i)"
| "request_of e (AnalysisAnalyze i t) = Inr (analysisAPI_analyze e i t)"
| "request_of e AnalysisGetRiskLevels = Inr (analysisAPI_getRiskLevels e)"
| "request_of e AnalysisGetClauseTypes = Inr (analysisAPI_getClauseTypes e)"
| "request_of e (AnalysisGetContractAnalysis i) = Inr (analysisAPI_getContractAnalysis e i)"
| "request_of e (DatasetGetClauses params) = datasetAPI_getClauses e params"
| "request_of e (DatasetGetClauseById i) = Inr (datasetAPI_getClauseById e i)"
| "request_of e DatasetGetClauseTypes = Inr (datasetAPI_getClauseTypes e)"
| "request_of e DatasetGetRiskLevels = Inr (datasetAPI_getRiskLevels e)"
| "request_of e DatasetGetStats = Inr (datasetAPI_getStats e)"
| "request_of e DatasetReload = Inr (datasetAPI_reload e)"
| "request_of e (ChatSendMessage m s c) = Inr (chatAPI_sendMessage e m s c)"
| "request_of e ChatGetSuggestions = Inr (chatAPI_getSuggestions e)"

subsection \<open>Interceptors and dispatch\<close>

text \<open>
  \<^verbatim>\<open>
  api.interceptors.request.use(
    (config) => { console.log(`... API Request: ${config.method?.toUpperCase()} ${config.url}`);
                  return config; },
    (error) => { console.error('... API Request Error:', error); return Promise.reject(error); });
  api.interceptors.response.use(
    (response) => { console.log(`... API Response: ${response.status} ${response.config.url}`);
                    return response; },
    (error) => { console.error('... API Response Error:', error.response?.data || error.message);
                 return Promise.reject(error); });
  \<close>
  The console is state: the list of the lines written so far. Each handler returns its
  value and the console after it. The client sets \<^verbatim>\<open>config.method\<close> before the
  interceptors run, and rejects with error objects, so a failure is a \<open>js_object\<close>.
\<close>

record response =
  status :: safe_integer
  payload :: jsval
  request_config :: config

datatype console_entry = ConsoleLog string | ConsoleError string jsval

type_synonym console = "console_entry list"

definition toUpperCase_method :: "http_method \<Rightarrow> string" where
  "toUpperCase_method m = (case m of GET \<Rightarrow> ''GET'' | POST \<Rightarrow> ''POST'' | DELETE \<Rightarrow> ''DELETE'')"

text \<open>The UTF-8 bytes of the three pictographs the log lines start with.\<close>

definition rocket :: string where
  "rocket = [CHR 0xF0, CHR 0x9F, CHR 0x9A, CHR 0x80]"

definition check_mark :: string where
  "check_mark = [CHR 0xE2, CHR 0x9C, CHR 0x85]"

definition cross_mark :: string where
  "cross_mark = [CHR 0xE2, CHR 0x9D, CHR 0x8C]"

definition request_fulfilled :: "config \<Rightarrow> console \<Rightarrow> config \<times> console" where
  "request_fulfilled cfg con =
     (cfg, con @ [ConsoleLog (rocket @ '' API Request: '' @ toUpperCase_method (method cfg)
                               @ '' '' @ url cfg)])"

definition request_rejected :: "js_object \<Rightarrow> console \<Rightarrow> js_object \<times> console" where
  "request_rejected err con =
     (err, con @ [ConsoleError (cross_mark @ '' API Request Error:'') (JObj err)])"

definition response_fulfilled :: "response \<Rightarrow> console \<Rightarrow> response \<times> console" where
  "response_fulfilled r con =
     (r, con @ [ConsoleLog (check_mark @ '' API Response: '' @ number_toString (status r)
                             @ '' '' @ url (request_config r))])"

definition response_rejected :: "js_object \<Rightarrow> console \<Rightarrow> js_object \<times> console" where
  "response_rejected err con =
     (err, con @ [ConsoleError (cross_mark @ '' API Response Error:'')
                    (js_or (get_prop_optional (field err ''response'') ''data'') (field err ''message''))])"

text \<open>
  A request through the instance. The transport (what sends the descriptor and answers
  with a response or a failure) is the environment's, so it is a parameter. The request
  handler runs on the descriptor, the transport on what that handler returns, and the
  response handlers on the transport's answer: \<open>Inr\<close> is the promise fulfilled, \<open>Inl\<close> the
  promise rejected.
\<close>

type_synonym transport = "config \<Rightarrow> js_object + response"

definition api_request :: "transport \<Rightarrow> config \<Rightarrow> console \<Rightarrow> (js_object + response) \<times> console" where
  "api_request send cfg con =
     (case request_fulfilled cfg con of (cfg', con') \<Rightarrow>
        (case send cfg' of
           Inr r \<Rightarrow> (case response_fulfilled r con' of (r', con'') \<Rightarrow> (Inr r', con''))
         | Inl err \<Rightarrow> (case response_rejected err con' of (err', con'') \<Rightarrow> (Inl err', con''))))"



subsection \<open>Concrete inputs\<close>

text \<open>
  The environment with neither variable set; the failure the client raises when no
  response arrives (its \<^verbatim>\<open>request\<close> is the request object, its \<^verbatim>\<open>response\<close> is
  missing); a transport that is offline; and a failure whose response has the JSON body
  \<^verbatim>\<open>null\<close>.
\<close>

definition local_env :: env where
  "local_env = \<lparr> REACT_APP_API_URL = None, REACT_APP_API_VERSION = None \<rparr>"

definition network_failure :: js_object where
  "network_failure =
     [(''message'', JStr ''Network Error''), (''name'', JStr ''AxiosError''),
      (''code'', JStr ''ERR_NETWORK''), (''request'', JObj [])]"


definition null_body_failure :: jsval where
  "null_body_failure =
     JObj [(''message'', JStr ''Request failed with status code 500''),
           (''request'', JObj []),
           (''response'', JObj [(''status'', JNum (safe_int 500)), (''data'', JNull)])]"

section \<open>Properties of the JavaScript primitives\<close>

lemma get_prop_present:
  "v \<noteq> JUndefined \<Longrightarrow> v \<noteq> JNull \<Longrightarrow> get_prop v k = Inr (get_prop_optional v k)"
  by (cases v) (simp_all add: get_prop_optional_def)

lemma get_prop_Inr_optional:
  "get_prop v k = Inr x \<Longrightarrow> get_prop_optional v k = x"
  by (simp add: get_prop_optional_def)


lemma truthy_present: "truthy v \<Longrightarrow> v \<noteq> JUndefined \<and> v \<noteq> JNull"
  by (cases v) simp_all

text \<open>The number a numeral in the safe range names.\<close>

lemma integer_value_safe_int:
  "- 9007199254740991 \<le> n \<Longrightarrow> n \<le> 9007199254740991 \<Longrightarrow> integer_value (safe_int n) = n"
  by (simp add: safe_int_inverse)

section \<open>Error normalization: the three branches\<close>

text \<open>With no truthy \<^verbatim>\<open>response\<close>, the result is decided by \<^verbatim>\<open>request\<close> alone.\<close>

lemma handleAPIError_no_response:
  assumes "err \<noteq> JUndefined" "err \<noteq> JNull" "\<not> truthy (get_prop_optional err ''response'')"
  shows "handleAPIError err =
     (if truthy (get_prop_optional err ''request'')
      then Inr (JObj [(''message'', JStr ''Network error - please check your connection''),
                      (''status'', JNum (safe_int 0)), (''code'', JStr ''NETWORK_ERROR'')])
      else Inr (JObj [(''message'', js_or (get_prop_optional err ''message'')
                                           (JStr ''An unexpected error occurred'')),
                      (''status'', JNum (safe_int (- 1))), (''code'', JStr ''UNKNOWN_ERROR'')]))"
  using assms by (simp add: handleAPIError_def js_bind_def get_prop_present)

text \<open>With a truthy \<^verbatim>\<open>response\<close>, what remains are the reads of its \<^verbatim>\<open>data\<close>.\<close>

lemma handleAPIError_response:
  assumes "get_prop err ''response'' = Inr r" "truthy r"
  shows "handleAPIError err =
     js_bind (get_prop (get_prop_optional r ''data'') ''detail'') (\<lambda>detail.
     js_bind (if truthy detail then Inr detail
              else js_bind (get_prop (get_prop_optional r ''data'') ''error'') (\<lambda>e.
                     Inr (js_or e (JStr ''An error occurred'')))) (\<lambda>message.
     js_bind (get_prop (get_prop_optional r ''data'') ''error_code'') (\<lambda>code.
       Inr (JObj [(''message'', message), (''status'', get_prop_optional r ''status''),
                  (''code'', code)]))))"
  using assms truthy_present [of r]
  by (simp add: handleAPIError_def js_bind_def get_prop_present)

lemma handleAPIError_response_body:
  assumes "get_prop err ''response'' = Inr r" "truthy r"
    and "get_prop_optional r ''data'' = b" "b \<noteq> JUndefined" "b \<noteq> JNull"
  shows "handleAPIError err =
     Inr (JObj [(''message'', js_or (get_prop_optional b ''detail'')
                                (js_or (get_prop_optional b ''error'') (JStr ''An error occurred''))),
                (''status'', get_prop_optional r ''status''),
                (''code'', get_prop_optional b ''error_code'')])"
  using assms
  by (simp add: handleAPIError_response js_bind_def get_prop_present js_or_def)

lemma failure_case_of_present:
  assumes "err \<noteq> JUndefined" "err \<noteq> JNull"
  shows "failure_case_of err =
     Inr (if truthy (get_prop_optional err ''response'') then ServerError
          else if truthy (get_prop_optional err ''request'') then NetworkError
          else UnknownError)"
  using assms by (simp add: failure_case_of_def js_bind_def get_prop_present)

text \<open>
  C2, as the code has it. \<^verbatim>\<open>handleAPIError(undefined)\<close> throws a TypeError at
  \<^verbatim>\<open>error.response\<close>: a failure that is nothing at all is not put into the third case.
\<close>

theorem handleAPIError_undefined_throws:
  "handleAPIError JUndefined = Inl TypeError"
  by (simp add: handleAPIError_def js_bind_def)

text \<open>
  C2 (amended): for every failure other than \<^verbatim>\<open>null\<close> and \<^verbatim>\<open>undefined\<close> the branches are
  tried in the order response, request, anything else. With a truthy \<^verbatim>\<open>response\<close> the
  result is that of the response alone (\<^verbatim>\<open>request\<close> and \<^verbatim>\<open>message\<close> are not consulted);
  with no truthy \<^verbatim>\<open>response\<close> but a truthy \<^verbatim>\<open>request\<close> it is exactly the network error;
  with neither it has status \<open>-1\<close>, code \<^verbatim>\<open>UNKNOWN_ERROR\<close> and the failure's own
  \<^verbatim>\<open>message\<close>, or the generic text when that is falsy.
\<close>

theorem handleAPIError_precedence:
  assumes "err \<noteq> JUndefined" and "err \<noteq> JNull"
  shows "(truthy (get_prop_optional err ''response'') \<longrightarrow>
            handleAPIError err =
              handleAPIError (JObj [(''response'', get_prop_optional err ''response'')]))
       \<and> (\<not> truthy (get_prop_optional err ''response'') \<and> truthy (get_prop_optional err ''request'') \<longrightarrow>
            handleAPIError err =
              Inr (JObj [(''message'', JStr ''Network error - please check your connection''),
                         (''status'', JNum (safe_int 0)), (''code'', JStr ''NETWORK_ERROR'')]))
       \<and> (\<not> truthy (get_prop_optional err ''response'') \<and> \<not> truthy (get_prop_optional err ''request'') \<longrightarrow>
            handleAPIError err =
              Inr (JObj [(''message'', js_or (get_prop_optional err ''message'')
                                              (JStr ''An unexpected error occurred'')),
                         (''status'', JNum (safe_int (- 1))), (''code'', JStr ''UNKNOWN_ERROR'')]))"
proof (intro conjI impI)
  assume t: "truthy (get_prop_optional err ''response'')"
  have "get_prop err ''response'' = Inr (get_prop_optional err ''response'')"
    using assms by (rule get_prop_present)
  from handleAPIError_response [OF this t]
  have l: "handleAPIError err =
      js_bind (get_prop (get_prop_optional (get_prop_optional err ''response'') ''data'') ''detail'') (\<lambda>detail.
      js_bind (if truthy detail then Inr detail
               else js_bind (get_prop (get_prop_optional (get_prop_optional err ''response'') ''data'') ''error'') (\<lambda>e.
                      Inr (js_or e (JStr ''An error occurred'')))) (\<lambda>message.
      js_bind (get_prop (get_prop_optional (get_prop_optional err ''response'') ''data'') ''error_code'') (\<lambda>code.
        Inr (JObj [(''message'', message),
                   (''status'', get_prop_optional (get_prop_optional err ''response'') ''status''),
                   (''code'', code)]))))" .
  have "get_prop (JObj [(''response'', get_prop_optional err ''response'')]) ''response''
          = Inr (get_prop_optional err ''response'')"
    by (simp add: field_def)
  from handleAPIError_response [OF this t] l
  show "handleAPIError err =
          handleAPIError (JObj [(''response'', get_prop_optional err ''response'')])"
    by simp
next
  assume "\<not> truthy (get_prop_optional err ''response'') \<and> truthy (get_prop_optional err ''request'')"
  then show "handleAPIError err =
      Inr (JObj [(''message'', JStr ''Network error - please check your connection''),
                 (''status'', JNum (safe_int 0)), (''code'', JStr ''NETWORK_ERROR'')])"
    using assms by (simp add: handleAPIError_no_response)
next
  assume "\<not> truthy (get_prop_optional err ''response'') \<and> \<not> truthy (get_prop_optional err ''request'')"
  then show "handleAPIError err =
      Inr (JObj [(''message'', js_or (get_prop_optional err ''message'')
                                      (JStr ''An unexpected error occurred'')),
                 (''status'', JNum (safe_int (- 1))), (''code'', JStr ''UNKNOWN_ERROR'')])"
    using assms by (simp add: handleAPIError_no_response)
qed

theorem handleAPIError_precedence_witness:
  "handleAPIError (JObj network_failure) =
     Inr (JObj [(''message'', JStr ''Network error - please check your connection''),
                (''status'', JNum (safe_int 0)), (''code'', JStr ''NETWORK_ERROR'')])
   \<and> handleAPIError (JObj [(''message'', JStr ''Invalid URL'')]) =
     Inr (JObj [(''message'', JStr ''Invalid URL''),
                (''status'', JNum (safe_int (- 1))), (''code'', JStr ''UNKNOWN_ERROR'')])
   \<and> handleAPIError (JObj [(''message'', JStr ''Request failed with status code 503''),
                           (''request'', JObj []),
                           (''response'', JObj [(''status'', JNum (safe_int 503)), (''data'', JStr ''busy'')])]) =
     handleAPIError (JObj [(''response'', JObj [(''status'', JNum (safe_int 503)), (''data'', JStr ''busy'')])])"
proof -
  have n1: "JObj network_failure \<noteq> JUndefined" and n2: "JObj network_failure \<noteq> JNull"
    by simp_all
  have nc: "\<not> truthy (get_prop_optional (JObj network_failure) ''response'')
            \<and> truthy (get_prop_optional (JObj network_failure) ''request'')"
    by (simp add: get_prop_optional_def field_def network_failure_def)
  have a: "handleAPIError (JObj network_failure) =
     Inr (JObj [(''message'', JStr ''Network error - please check your connection''),
                (''status'', JNum (safe_int 0)), (''code'', JStr ''NETWORK_ERROR'')])"
    using handleAPIError_precedence [OF n1 n2] nc by blast
  let ?u = "JObj [(''message'', JStr ''Invalid URL'')]"
  have u1: "?u \<noteq> JUndefined" and u2: "?u \<noteq> JNull"
    by simp_all
  have uc: "\<not> truthy (get_prop_optional ?u ''response'') \<and> \<not> truthy (get_prop_optional ?u ''request'')"
    by (simp add: get_prop_optional_def field_def)
  have "handleAPIError ?u =
     Inr (JObj [(''message'', js_or (get_prop_optional ?u ''message'')
                                     (JStr ''An unexpected error occurred'')),
                (''status'', JNum (safe_int (- 1))), (''code'', JStr ''UNKNOWN_ERROR'')])"
    using handleAPIError_precedence [OF u1 u2] uc by blast
  then have b: "handleAPIError ?u =
     Inr (JObj [(''message'', JStr ''Invalid URL''),
                (''status'', JNum (safe_int (- 1))), (''code'', JStr ''UNKNOWN_ERROR'')])"
    by (simp add: get_prop_optional_def field_def js_or_def)
  let ?r = "JObj [(''status'', JNum (safe_int 503)), (''data'', JStr ''busy'')]"
  let ?s = "JObj [(''message'', JStr ''Request failed with status code 503''),
                  (''request'', JObj []), (''response'', ?r)]"
  have s1: "?s \<noteq> JUndefined" and s2: "?s \<noteq> JNull"
    by simp_all
  have sr: "get_prop_optional ?s ''response'' = ?r"
    by (simp add: get_prop_optional_def field_def)
  have sc: "truthy (get_prop_optional ?s ''response'')"
    by (simp add: sr)
  have "handleAPIError ?s = handleAPIError (JObj [(''response'', get_prop_optional ?s ''response'')])"
    using handleAPIError_precedence [OF s1 s2] sc by blast
  then have c: "handleAPIError ?s = handleAPIError (JObj [(''response'', ?r)])"
    by (simp only: sr)
  from a b c show ?thesis by blast
qed

text \<open>
  C3, as the code has it. A response body \<^verbatim>\<open>{error: ""}\<close> with no \<^verbatim>\<open>detail\<close> gives the
  generic message, not the \<^verbatim>\<open>error\<close> field; a body \<^verbatim>\<open>{detail: "", error: "Bad gateway"}\<close>
  gives the \<^verbatim>\<open>error\<close> field although \<^verbatim>\<open>detail\<close> is there; and a response whose body is
  \<^verbatim>\<open>null\<close> gives no normalized error at all, but a TypeError.
\<close>

theorem handleAPIError_falsy_fields:
  "handleAPIError (JObj [(''response'', JObj [(''status'', JNum (safe_int 500)),
                                               (''data'', JObj [(''error'', JStr [])])])]) =
     Inr (JObj [(''message'', JStr ''An error occurred''), (''status'', JNum (safe_int 500)),
                (''code'', JUndefined)])
   \<and> handleAPIError (JObj [(''response'', JObj [(''status'', JNum (safe_int 502)),
                                                 (''data'', JObj [(''detail'', JStr []),
                                                                  (''error'', JStr ''Bad gateway'')])])]) =
     Inr (JObj [(''message'', JStr ''Bad gateway''), (''status'', JNum (safe_int 502)),
                (''code'', JUndefined)])
   \<and> handleAPIError (JObj [(''response'', JObj [(''status'', JNum (safe_int 502)), (''data'', JNull)])]) =
     Inl TypeError"
  by (simp add: handleAPIError_def js_bind_def field_def js_or_def)

text \<open>
  C3 (amended): for every failure that carries a response (a truthy \<^verbatim>\<open>response\<close>) whose
  body \<^verbatim>\<open>data\<close> is neither \<^verbatim>\<open>null\<close> nor \<^verbatim>\<open>undefined\<close>, the normalized error has
  \<^item> as message the body's \<^verbatim>\<open>detail\<close> when that is truthy, otherwise its \<^verbatim>\<open>error\<close> when
    that is truthy, otherwise \<^verbatim>\<open>An error occurred\<close>: a field that is missing, \<^verbatim>\<open>null\<close>,
    the empty string, \<open>0\<close> or \<^verbatim>\<open>false\<close> falls through alike;
  \<^item> as status the response's \<^verbatim>\<open>status\<close>;
  \<^item> as code the body's \<^verbatim>\<open>error_code\<close>, \<^verbatim>\<open>undefined\<close> when the body has none.
\<close>

theorem handleAPIError_server_response:
  assumes "get_prop err ''response'' = Inr r" and "truthy r"
    and "get_prop r ''data'' = Inr b" and "b \<noteq> JUndefined" and "b \<noteq> JNull"
  shows "handleAPIError err =
     Inr (JObj [(''message'', js_or (get_prop_optional b ''detail'')
                                (js_or (get_prop_optional b ''error'') (JStr ''An error occurred''))),
                (''status'', get_prop_optional r ''status''),
                (''code'', get_prop_optional b ''error_code'')])"
proof -
  have "get_prop_optional r ''data'' = b"
    using assms(3) by (rule get_prop_Inr_optional)
  with assms show ?thesis
    by (simp add: handleAPIError_response_body)
qed

theorem handleAPIError_server_response_witness:
  "handleAPIError
     (JObj [(''message'', JStr ''Request failed with status code 404''),
            (''response'', JObj [(''status'', JNum (safe_int 404)),
                                 (''data'', JObj [(''detail'', JStr ''Contract not found''),
                                                  (''error_code'', JStr ''NOT_FOUND'')])])]) =
   Inr (JObj [(''message'', JStr ''Contract not found''), (''status'', JNum (safe_int 404)),
              (''code'', JStr ''NOT_FOUND'')])"
proof -
  let ?b = "JObj [(''detail'', JStr ''Contract not found''), (''error_code'', JStr ''NOT_FOUND'')]"
  let ?r = "JObj [(''status'', JNum (safe_int 404)), (''data'', ?b)]"
  let ?e = "JObj [(''message'', JStr ''Request failed with status code 404''), (''response'', ?r)]"
  have h1: "get_prop ?e ''response'' = Inr ?r" by (simp add: field_def)
  have h2: "truthy ?r" by simp
  have h3: "get_prop ?r ''data'' = Inr ?b" by (simp add: field_def)
  have h4: "?b \<noteq> JUndefined" and h5: "?b \<noteq> JNull" by simp_all
  from handleAPIError_server_response [OF h1 h2 h3 h4 h5]
  show ?thesis
    by (simp add: get_prop_optional_def field_def js_or_def)
qed

text \<open>
  C4, as the code has it. A failure whose response has the JSON body \<^verbatim>\<open>null\<close> is put into
  none of the three cases: reading \<^verbatim>\<open>data.detail\<close> throws a TypeError. So does the
  failure \<^verbatim>\<open>null\<close> itself, at \<^verbatim>\<open>error.response\<close>.
\<close>

theorem handleAPIError_null_body_throws:
  "handleAPIError null_body_failure = Inl TypeError \<and> handleAPIError JNull = Inl TypeError"
  by (simp add: handleAPIError_def js_bind_def field_def null_body_failure_def)

text \<open>
  C4 (amended): on every failure other than \<^verbatim>\<open>null\<close> and \<^verbatim>\<open>undefined\<close> whose
  response, when it has one, carries a body other than \<^verbatim>\<open>null\<close> and \<^verbatim>\<open>undefined\<close> (an
  empty string, a text, a number or an object), \<^verbatim>\<open>handleAPIError\<close> returns, what it
  returns is an object with exactly the properties \<^verbatim>\<open>message\<close>, \<^verbatim>\<open>status\<close>, \<^verbatim>\<open>code\<close>, and
  exactly one of the three cases applies: the server case precisely when there is a
  truthy \<^verbatim>\<open>response\<close>, the network case precisely when there is none but a truthy
  \<^verbatim>\<open>request\<close>, the unknown case precisely when there is neither. The object returned is
  the one of that case: in the server case the message, status and code read from the
  response; in the network case the fixed network error; in the unknown case status
  \<open>-1\<close>, code \<^verbatim>\<open>UNKNOWN_ERROR\<close> and the failure's message or the generic text.
\<close>

theorem handleAPIError_total:
  assumes "err \<noteq> JUndefined" and "err \<noteq> JNull"
    and "truthy (get_prop_optional err ''response'') \<longrightarrow>
           get_prop_optional (get_prop_optional err ''response'') ''data'' \<noteq> JUndefined
         \<and> get_prop_optional (get_prop_optional err ''response'') ''data'' \<noteq> JNull"
  shows "\<exists>c v. failure_case_of err = Inr c \<and> handleAPIError err = Inr v \<and> is_normalized v
       \<and> (c = ServerError) = truthy (get_prop_optional err ''response'')
       \<and> (c = NetworkError) = (\<not> truthy (get_prop_optional err ''response'')
                                 \<and> truthy (get_prop_optional err ''request''))
       \<and> (c = UnknownError) = (\<not> truthy (get_prop_optional err ''response'')
                                 \<and> \<not> truthy (get_prop_optional err ''request''))
       \<and> v = (case c of
                ServerError \<Rightarrow>
                  JObj [(''message'',
                           js_or (get_prop_optional
                                    (get_prop_optional (get_prop_optional err ''response'') ''data'')
                                    ''detail'')
                             (js_or (get_prop_optional
                                       (get_prop_optional (get_prop_optional err ''response'') ''data'')
                                       ''error'')
                                (JStr ''An error occurred''))),
                        (''status'', get_prop_optional (get_prop_optional err ''response'') ''status''),
                        (''code'',
                           get_prop_optional
                             (get_prop_optional (get_prop_optional err ''response'') ''data'')
                             ''error_code'')]
              | NetworkError \<Rightarrow>
                  JObj [(''message'', JStr ''Network error - please check your connection''),
                        (''status'', JNum (safe_int 0)), (''code'', JStr ''NETWORK_ERROR'')]
              | UnknownError \<Rightarrow>
                  JObj [(''message'', js_or (get_prop_optional err ''message'')
                                          (JStr ''An unexpected error occurred'')),
                        (''status'', JNum (safe_int (- 1))), (''code'', JStr ''UNKNOWN_ERROR'')])"
proof (cases "truthy (get_prop_optional err ''response'')")
  case True
  have "get_prop err ''response'' = Inr (get_prop_optional err ''response'')"
    using assms(1,2) by (rule get_prop_present)
  from handleAPIError_response_body [OF this True refl] assms(3) True
  have v: "handleAPIError err =
     Inr (JObj [(''message'',
                   js_or (get_prop_optional
                            (get_prop_optional (get_prop_optional err ''response'') ''data'')
                            ''detail'')
                     (js_or (get_prop_optional
                               (get_prop_optional (get_prop_optional err ''response'') ''data'')
                               ''error'')
                        (JStr ''An error occurred''))),
                (''status'', get_prop_optional (get_prop_optional err ''response'') ''status''),
                (''code'',
                   get_prop_optional
                     (get_prop_optional (get_prop_optional err ''response'') ''data'')
                     ''error_code'')])"
    by simp
  have c: "failure_case_of err = Inr ServerError"
    using assms(1,2) True by (simp add: failure_case_of_present)
  from c v True show ?thesis by simp
next
  case False
  show ?thesis
  proof (cases "truthy (get_prop_optional err ''request'')")
    case True
    have v: "handleAPIError err =
       Inr (JObj [(''message'', JStr ''Network error - please check your connection''),
                  (''status'', JNum (safe_int 0)), (''code'', JStr ''NETWORK_ERROR'')])"
      using assms(1,2) False True by (simp add: handleAPIError_no_response)
    have c: "failure_case_of err = Inr NetworkError"
      using assms(1,2) False True by (simp add: failure_case_of_present)
    from c v False True show ?thesis by simp
  next
    case nr: False
    have v: "handleAPIError err =
       Inr (JObj [(''message'', js_or (get_prop_optional err ''message'')
                                    (JStr ''An unexpected error occurred'')),
                  (''status'', JNum (safe_int (- 1))), (''code'', JStr ''UNKNOWN_ERROR'')])"
      using assms(1,2) False nr by (simp add: handleAPIError_no_response)
    have c: "failure_case_of err = Inr UnknownError"
      using assms(1,2) False nr by (simp add: failure_case_of_present)
    from c v False nr show ?thesis by simp
  qed
qed

theorem handleAPIError_total_witness:
  "failure_case_of (JObj [(''response'', JObj [(''status'', JNum (safe_int 500)), (''data'', JStr [])])]) =
     Inr ServerError
   \<and> handleAPIError (JObj [(''response'', JObj [(''status'', JNum (safe_int 500)), (''data'', JStr [])])]) =
     Inr (JObj [(''message'', JStr ''An error occurred''), (''status'', JNum (safe_int 500)),
                (''code'', JUndefined)])"
proof -
  let ?e = "JObj [(''response'', JObj [(''status'', JNum (safe_int 500)), (''data'', JStr [])])]"
  have h1: "?e \<noteq> JUndefined" and h2: "?e \<noteq> JNull" by simp_all
  have h3: "truthy (get_prop_optional ?e ''response'') \<longrightarrow>
              get_prop_optional (get_prop_optional ?e ''response'') ''data'' \<noteq> JUndefined
            \<and> get_prop_optional (get_prop_optional ?e ''response'') ''data'' \<noteq> JNull"
    by (simp add: get_prop_optional_def field_def)
  have t: "truthy (get_prop_optional ?e ''response'')"
    by (simp add: get_prop_optional_def field_def)
  from handleAPIError_total [OF h1 h2 h3]
  obtain c v where cv: "failure_case_of ?e = Inr c" "handleAPIError ?e = Inr v"
      "(c = ServerError) = truthy (get_prop_optional ?e ''response'')"
      "v = (case c of
              ServerError \<Rightarrow>
                JObj [(''message'',
                         js_or (get_prop_optional
                                  (get_prop_optional (get_prop_optional ?e ''response'') ''data'')
                                  ''detail'')
                           (js_or (get_prop_optional
                                     (get_prop_optional (get_prop_optional ?e ''response'') ''data'')
                                     ''error'')
                              (JStr ''An error occurred''))),
                      (''status'', get_prop_optional (get_prop_optional ?e ''response'') ''status''),
                      (''code'',
                         get_prop_optional
                           (get_prop_optional (get_prop_optional ?e ''response'') ''data'')
                           ''error_code'')]
            | NetworkError \<Rightarrow>
                JObj [(''message'', JStr ''Network error - please check your connection''),
                      (''status'', JNum (safe_int 0)), (''code'', JStr ''NETWORK_ERROR'')]
            | UnknownError \<Rightarrow>
                JObj [(''message'', js_or (get_prop_optional ?e ''message'')
                                        (JStr ''An unexpected error occurred'')),
                      (''status'', JNum (safe_int (- 1))), (''code'', JStr ''UNKNOWN_ERROR'')])"
    by blast
  from cv(3) t have c: "c = ServerError" by simp
  from cv(4) have "v = JObj [(''message'', JStr ''An error occurred''),
                             (''status'', JNum (safe_int 500)), (''code'', JUndefined)]"
    unfolding c by (simp add: get_prop_optional_def field_def js_or_def)
  with cv(1,2) c show ?thesis by simp
qed

section \<open>The gateway's requests\<close>

text \<open>
  The loop of \<^verbatim>\<open>getClauses\<close> calls \<^verbatim>\<open>toString\<close> only behind its guard, where the call
  returns unless the value is an object with a \<^verbatim>\<open>toString\<close> property of its own. When no
  value is such an object the loop does not throw, and what it appends, to whatever
  \<^verbatim>\<open>searchParams\<close> held, is one pair for each entry whose value is neither \<^verbatim>\<open>undefined\<close>
  nor \<^verbatim>\<open>null\<close>, in the order of the entries.
\<close>

lemma js_toString_returns:
  "v \<noteq> JUndefined \<Longrightarrow> v \<noteq> JNull \<Longrightarrow> \<not> overrides_toString v \<Longrightarrow> \<exists>s. js_toString v = Inr s"
  by (cases v) simp_all

lemma forEach_entry_appends:
  assumes "list_all (\<lambda>(k, v). \<not> overrides_toString v) ps"
  shows "forEach_entry ps sp =
     Inr (sp @ map (\<lambda>(k, v). (k, projr (js_toString v)))
                 (filter (\<lambda>(k, v). v \<noteq> JUndefined \<and> v \<noteq> JNull) ps))"
  using assms
proof (induction ps arbitrary: sp)
  case Nil
  show ?case by simp
next
  case (Cons p ps)
  obtain k v where p: "p = (k, v)" by (cases p)
  from Cons.prems p have nv: "\<not> overrides_toString v"
    and rest: "list_all (\<lambda>(k, v). \<not> overrides_toString v) ps"
    by simp_all
  show ?case
  proof (cases "v \<noteq> JUndefined \<and> v \<noteq> JNull")
    case True
    with nv obtain s where s: "js_toString v = Inr s"
      using js_toString_returns [of v] by blast
    show ?thesis
      using True s Cons.IH [OF rest, of "URLSearchParams_append sp k s"]
      by (simp add: p js_bind_def URLSearchParams_append_def)
  next
    case False
    then show ?thesis using Cons.IH [OF rest, of sp] by (auto simp add: p)
  qed
qed

lemma forEach_entry_projr:
  assumes "list_all (\<lambda>(k, v). \<not> overrides_toString v) ps"
  shows "projr (forEach_entry ps []) =
     map (\<lambda>(k, v). (k, projr (js_toString v)))
         (filter (\<lambda>(k, v). v \<noteq> JUndefined \<and> v \<noteq> JNull) ps)"
  using assms by (simp add: forEach_entry_appends)

lemma getClauses_returns:
  assumes "list_all (\<lambda>(k, v). \<not> overrides_toString v) ps"
  shows "datasetAPI_getClauses e (Some ps) =
     Inr (api_get e (''/dataset/clauses?''
            @ join ''&'' (map (\<lambda>(k, s). urlencode k @ ''='' @ urlencode s)
                            (projr (forEach_entry ps [])))))"
  using assms
  by (simp add: datasetAPI_getClauses_def js_bind_def forEach_entry_appends
        URLSearchParams_toString_def)

lemma getClauses_default:
  "datasetAPI_getClauses e None = Inr (api_get e ''/dataset/clauses?'')"
  by (simp add: datasetAPI_getClauses_def js_bind_def URLSearchParams_toString_def)

text \<open>Every operation builds its descriptor from the instance, whose base URL and
  timeout no operation overrides, and names a resource under \<^verbatim>\<open>/\<close>.\<close>

lemma api_get_fields:
  "baseURL (api_get e u) = API_BASE_URL e @ ''/api/'' @ API_VERSION e"
  "timeout (api_get e u) = 30000"
  "url (api_get e u) = u"
  by (simp_all add: api_get_def api_def)

lemma api_post_fields:
  "baseURL (api_post e u d hs) = API_BASE_URL e @ ''/api/'' @ API_VERSION e"
  "timeout (api_post e u d hs) = 30000"
  "url (api_post e u d hs) = u"
  "data (api_post e u d hs) = d"
  by (simp_all add: api_post_def api_def)

lemma api_delete_fields:
  "baseURL (api_delete e u) = API_BASE_URL e @ ''/api/'' @ API_VERSION e"
  "timeout (api_delete e u) = 30000"
  "url (api_delete e u) = u"
  by (simp_all add: api_delete_def api_def)

lemma getClauses_descriptor:
  assumes "datasetAPI_getClauses e params = Inr cfg"
  shows "\<exists>query. cfg = api_get e (''/dataset/clauses?'' @ query)"
  using assms
  by (auto simp add: datasetAPI_getClauses_def js_bind_def split: sum.splits)

lemma request_of_descriptor:
  assumes "request_of e call = Inr cfg"
  shows "\<exists>resource. url cfg = ''/'' @ resource
     \<and> baseURL cfg = API_BASE_URL e @ ''/api/'' @ API_VERSION e
     \<and> timeout cfg = 30000"
proof (cases call)
  case (DatasetGetClauses params)
  with assms obtain query where "cfg = api_get e (''/dataset/clauses?'' @ query)"
    using getClauses_descriptor [of e params cfg] by auto
  then show ?thesis by (simp add: api_get_fields)
qed (insert assms, auto simp add: healthAPI_check_def healthAPI_detailed_def
       contractAPI_upload_def contractAPI_list_def contractAPI_getById_def
       contractAPI_delete_def analysisAPI_analyze_def analysisAPI_getRiskLevels_def
       analysisAPI_getClauseTypes_def analysisAPI_getContractAnalysis_def
       datasetAPI_getClauseById_def datasetAPI_getClauseTypes_def
       datasetAPI_getRiskLevels_def datasetAPI_getStats_def datasetAPI_reload_def
       chatAPI_sendMessage_def chatAPI_getSuggestions_def
       api_get_fields api_post_fields api_delete_fields)

text \<open>
  An operation hands a descriptor to the client unless building it throws, which only
  \<^verbatim>\<open>getClauses\<close> can do, and only on an object that has a value with a \<^verbatim>\<open>toString\<close>
  property of its own.
\<close>

lemma request_of_returns:
  assumes "\<forall>ps. call = DatasetGetClauses (Some ps) \<longrightarrow>
             list_all (\<lambda>(k, v). \<not> overrides_toString v) ps"
  shows "\<exists>cfg. request_of e call = Inr cfg"
proof (cases call)
  case (DatasetGetClauses params)
  show ?thesis
  proof (cases params)
    case None
    with DatasetGetClauses show ?thesis by (simp add: getClauses_default)
  next
    case (Some ps)
    with DatasetGetClauses assms have "list_all (\<lambda>(k, v). \<not> overrides_toString v) ps"
      by simp
    from getClauses_returns [OF this] DatasetGetClauses Some show ?thesis by simp
  qed
qed simp_all

text \<open>The handlers hand on what they were given; the console only grows.\<close>

lemma api_request_outcome:
  "fst (api_request send cfg con) = send cfg"
  by (cases "send cfg")
     (simp_all add: api_request_def request_fulfilled_def response_fulfilled_def
        response_rejected_def)

lemma api_request_console:
  "\<exists>entries. snd (api_request send cfg con) = con @ entries"
  by (cases "send cfg")
     (simp_all add: api_request_def request_fulfilled_def response_fulfilled_def
        response_rejected_def)






text \<open>
  C5, as the code has it. \<^verbatim>\<open>sendMessage("hello")\<close> gives \<^verbatim>\<open>session_id\<close> and
  \<^verbatim>\<open>contract_id\<close> the value \<^verbatim>\<open>undefined\<close>, not \<^verbatim>\<open>null\<close>, and the JSON text of that body is
  \<^verbatim>\<open>{"message":"hello"}\<close>: neither key is in it.
\<close>

theorem sendMessage_absent_ids_undefined:
  "data (chatAPI_sendMessage local_env ''hello'' None None) =
     ObjectData (JObj [(''message'', JStr ''hello''), (''session_id'', JUndefined),
                       (''contract_id'', JUndefined)])
   \<and> json_body (chatAPI_sendMessage local_env ''hello'' None None) =
     Some (''{'' @ [CHR 0x22] @ ''message'' @ [CHR 0x22] @ '':'' @ [CHR 0x22] @ ''hello''
           @ [CHR 0x22] @ ''}'')"
  by (simp add: chatAPI_sendMessage_def api_post_fields json_body_def json_quote_def
        json_escape_def)

text \<open>
  C5 (amended): for every call of \<^verbatim>\<open>sendMessage(message, sessionId?, contractId?)\<close> the
  body object handed to the client has the properties \<^verbatim>\<open>message\<close>, \<^verbatim>\<open>session_id\<close> and
  \<^verbatim>\<open>contract_id\<close>, in this order; an argument left out gives its property the value
  \<^verbatim>\<open>undefined\<close>, never \<^verbatim>\<open>null\<close>. The JSON text of the body always has the member
  \<^verbatim>\<open>message\<close>, and has the member \<^verbatim>\<open>session_id\<close>, and likewise \<^verbatim>\<open>contract_id\<close>, exactly
  when that argument was given.
\<close>

theorem sendMessage_body:
  "data (chatAPI_sendMessage e m s c) =
     ObjectData (JObj [(''message'', JStr m),
                       (''session_id'', case s of None \<Rightarrow> JUndefined | Some x \<Rightarrow> JStr x),
                       (''contract_id'', case c of None \<Rightarrow> JUndefined | Some n \<Rightarrow> JNum n)])
   \<and> json_body (chatAPI_sendMessage e m s c) =
     Some (''{'' @ join '',''
             ([json_quote ''message'' @ '':'' @ json_quote m]
              @ (case s of None \<Rightarrow> [] | Some x \<Rightarrow> [json_quote ''session_id'' @ '':'' @ json_quote x])
              @ (case c of None \<Rightarrow> [] | Some n \<Rightarrow> [json_quote ''contract_id'' @ '':'' @ number_toString n]))
           @ ''}'')"
  by (cases s; cases c)
     (simp_all add: chatAPI_sendMessage_def api_post_fields json_body_def)

text \<open>
  C6: for every filter object (its values are strings and numbers; the statement takes
  any object none of whose values has a \<^verbatim>\<open>toString\<close> property of its own),
  \<^verbatim>\<open>getClauses\<close> requests \<^verbatim>\<open>/dataset/clauses?\<close> followed by the query string, and the
  query string is the pairs its loop collected, each written \<^verbatim>\<open>key=value\<close>, joined by
  \<^verbatim>\<open>&\<close>. Each key of the object whose value is neither \<^verbatim>\<open>undefined\<close> nor \<^verbatim>\<open>null\<close> is among
  those pairs, with the value's string; a key that the object does not have, or has only
  as \<^verbatim>\<open>undefined\<close> or \<^verbatim>\<open>null\<close>, is in no pair. \<^verbatim>\<open>getClauses({clauseType: "NDA"})\<close> asks for
  \<^verbatim>\<open>/dataset/clauses?clauseType=NDA\<close>; \<^verbatim>\<open>getClauses({})\<close>, like \<^verbatim>\<open>getClauses()\<close>, for
  \<^verbatim>\<open>/dataset/clauses?\<close> with an empty query string; and a filter with \<^verbatim>\<open>clause_type\<close>, a
  \<^verbatim>\<open>null\<close> \<^verbatim>\<open>risk_level\<close>, \<^verbatim>\<open>search_text\<close> and \<^verbatim>\<open>page\<close> for the three parameters that are there.
\<close>

theorem getClauses_present_serialized_absent_omitted:
  assumes "list_all (\<lambda>(k, v). \<not> overrides_toString v) ps"
  shows "datasetAPI_getClauses e (Some ps) =
     Inr (api_get e (''/dataset/clauses?''
            @ join ''&'' (map (\<lambda>(k, s). urlencode k @ ''='' @ urlencode s)
                            (projr (forEach_entry ps [])))))
   \<and> (\<forall>k v. (k, v) \<in> set ps \<and> v \<noteq> JUndefined \<and> v \<noteq> JNull \<longrightarrow>
         (\<exists>s. js_toString v = Inr s \<and> (k, s) \<in> set (projr (forEach_entry ps []))))
   \<and> (\<forall>k. (\<forall>v. (k, v) \<in> set ps \<longrightarrow> v = JUndefined \<or> v = JNull) \<longrightarrow>
         k \<notin> fst ` set (projr (forEach_entry ps [])))
   \<and> datasetAPI_getClauses e (Some [(''clauseType'', JStr ''NDA'')]) =
       Inr (api_get e ''/dataset/clauses?clauseType=NDA'')
   \<and> datasetAPI_getClauses e (Some []) = Inr (api_get e ''/dataset/clauses?'')
   \<and> datasetAPI_getClauses e None = Inr (api_get e ''/dataset/clauses?'')
   \<and> datasetAPI_getClauses e
        (Some [(''clause_type'', JStr ''NDA''), (''risk_level'', JNull),
               (''search_text'', JStr ''late fee''), (''page'', JNum (safe_int 2))]) =
       Inr (api_get e ''/dataset/clauses?clause_type=NDA&search_text=late+fee&page=2'')"
proof (intro conjI allI impI)
  show "datasetAPI_getClauses e (Some ps) =
     Inr (api_get e (''/dataset/clauses?''
            @ join ''&'' (map (\<lambda>(k, s). urlencode k @ ''='' @ urlencode s)
                            (projr (forEach_entry ps [])))))"
    using assms by (rule getClauses_returns)
next
  fix k v
  assume a: "(k, v) \<in> set ps \<and> v \<noteq> JUndefined \<and> v \<noteq> JNull"
  with assms have "\<not> overrides_toString v"
    by (auto simp add: list_all_iff)
  with a obtain s where s: "js_toString v = Inr s"
    using js_toString_returns [of v] by blast
  from a have "(k, v) \<in> set (filter (\<lambda>(k, v). v \<noteq> JUndefined \<and> v \<noteq> JNull) ps)"
    by simp
  then have "(\<lambda>(k, v). (k, projr (js_toString v))) (k, v)
               \<in> set (projr (forEach_entry ps []))"
    unfolding forEach_entry_projr [OF assms] set_map by (rule imageI)
  with s show "\<exists>s. js_toString v = Inr s \<and> (k, s) \<in> set (projr (forEach_entry ps []))"
    by simp
next
  fix k
  assume a: "\<forall>v. (k, v) \<in> set ps \<longrightarrow> v = JUndefined \<or> v = JNull"
  show "k \<notin> fst ` set (projr (forEach_entry ps []))"
  proof
    assume "k \<in> fst ` set (projr (forEach_entry ps []))"
    then obtain v where "(k, v) \<in> set ps" "v \<noteq> JUndefined \<and> v \<noteq> JNull"
      by (auto simp add: forEach_entry_projr [OF assms])
    with a show False by blast
  qed
next
  show "datasetAPI_getClauses e (Some [(''clauseType'', JStr ''NDA'')]) =
       Inr (api_get e ''/dataset/clauses?clauseType=NDA'')"
    by (simp add: datasetAPI_getClauses_def js_bind_def URLSearchParams_append_def
          URLSearchParams_toString_def urlencode_def urlencode_byte_def urlencoded_keep_def)
next
  show "datasetAPI_getClauses e (Some []) = Inr (api_get e ''/dataset/clauses?'')"
    by (simp add: datasetAPI_getClauses_def js_bind_def URLSearchParams_toString_def)
next
  show "datasetAPI_getClauses e None = Inr (api_get e ''/dataset/clauses?'')"
    by (rule getClauses_default)
next
  show "datasetAPI_getClauses e
        (Some [(''clause_type'', JStr ''NDA''), (''risk_level'', JNull),
               (''search_text'', JStr ''late fee''), (''page'', JNum (safe_int 2))]) =
       Inr (api_get e ''/dataset/clauses?clause_type=NDA&search_text=late+fee&page=2'')"
    by (simp add: datasetAPI_getClauses_def js_bind_def URLSearchParams_append_def
          URLSearchParams_toString_def urlencode_def urlencode_byte_def urlencoded_keep_def
          number_toString_def digit_char_def integer_value_safe_int)
qed

theorem getClauses_present_serialized_absent_omitted_witness:
  "datasetAPI_getClauses local_env
     (Some [(''clause_type'', JStr ''NDA''), (''risk_level'', JNull), (''page'', JNum (safe_int 2))]) =
     Inr (api_get local_env ''/dataset/clauses?clause_type=NDA&page=2'')
   \<and> (''clause_type'', ''NDA'')
      \<in> set (projr (forEach_entry [(''clause_type'', JStr ''NDA''), (''risk_level'', JNull),
                                     (''page'', JNum (safe_int 2))] []))
   \<and> ''risk_level''
      \<notin> fst ` set (projr (forEach_entry [(''clause_type'', JStr ''NDA''), (''risk_level'', JNull),
                                          (''page'', JNum (safe_int 2))] []))
   \<and> ''search_text''
      \<notin> fst ` set (projr (forEach_entry [(''clause_type'', JStr ''NDA''), (''risk_level'', JNull),
                                          (''page'', JNum (safe_int 2))] []))"
proof -
  let ?ps = "[(''clause_type'', JStr ''NDA''), (''risk_level'', JNull),
              (''page'', JNum (safe_int 2))]"
  have h: "list_all (\<lambda>(k, v). \<not> overrides_toString v) ?ps"
    by simp
  note t = getClauses_present_serialized_absent_omitted [OF h, of local_env]
  have pairs: "projr (forEach_entry ?ps []) = [(''clause_type'', ''NDA''), (''page'', ''2'')]"
    by (simp add: js_bind_def URLSearchParams_append_def number_toString_def digit_char_def
          integer_value_safe_int)
  from t have "datasetAPI_getClauses local_env (Some ?ps) =
     Inr (api_get local_env (''/dataset/clauses?''
            @ join ''&'' (map (\<lambda>(k, s). urlencode k @ ''='' @ urlencode s)
                            (projr (forEach_entry ?ps [])))))"
    by blast
  then have u: "datasetAPI_getClauses local_env (Some ?ps) =
     Inr (api_get local_env ''/dataset/clauses?clause_type=NDA&page=2'')"
    unfolding pairs by (simp add: urlencode_def urlencode_byte_def urlencoded_keep_def)
  have p: "(''clause_type'', JStr ''NDA'') \<in> set ?ps \<and> JStr ''NDA'' \<noteq> JUndefined
           \<and> JStr ''NDA'' \<noteq> JNull"
    by simp
  from t p have "\<exists>s. js_toString (JStr ''NDA'') = Inr s
                   \<and> (''clause_type'', s) \<in> set (projr (forEach_entry ?ps []))"
    by blast
  then have a: "(''clause_type'', ''NDA'') \<in> set (projr (forEach_entry ?ps []))"
    by simp
  have r: "\<forall>v. (''risk_level'', v) \<in> set ?ps \<longrightarrow> v = JUndefined \<or> v = JNull"
    by simp
  from t r have b: "''risk_level'' \<notin> fst ` set (projr (forEach_entry ?ps []))"
    by blast
  have q: "\<forall>v. (''search_text'', v) \<in> set ?ps \<longrightarrow> v = JUndefined \<or> v = JNull"
    by simp
  from t q have c: "''search_text'' \<notin> fst ` set (projr (forEach_entry ?ps []))"
    by blast
  from u a b c show ?thesis by blast
qed

text \<open>
  C7: whenever an operation hands a descriptor to the client, the descriptor's relative
  URL is \<^verbatim>\<open>/\<close> and a resource, its base URL is the configured base URL, \<^verbatim>\<open>/api/\<close> and the
  configured version, so that base URL and relative URL together read
  \<^verbatim>\<open>{baseURL}/api/{version}/{resource}\<close>, and its timeout is 30000 milliseconds. Every
  operation hands over a descriptor; \<^verbatim>\<open>getClauses\<close> does whenever no value of its argument
  is an object with a \<^verbatim>\<open>toString\<close> property of its own. The base URL and the version are
  those of the environment, \<^verbatim>\<open>http://localhost:8000\<close> and \<^verbatim>\<open>v1\<close> when the variable is unset.
\<close>

theorem request_url_composition:
  "(request_of e call = Inr cfg \<longrightarrow>
      (\<exists>resource. url cfg = ''/'' @ resource
          \<and> baseURL cfg @ url cfg = API_BASE_URL e @ ''/api/'' @ API_VERSION e @ ''/'' @ resource)
      \<and> timeout cfg = 30000)
   \<and> ((\<forall>ps. call = DatasetGetClauses (Some ps) \<longrightarrow>
              list_all (\<lambda>(k, v). \<not> overrides_toString v) ps) \<longrightarrow>
        (\<exists>cfg'. request_of e call = Inr cfg'))
   \<and> API_BASE_URL (e\<lparr>REACT_APP_API_URL := None\<rparr>) = ''http://localhost:8000''
   \<and> API_VERSION (e\<lparr>REACT_APP_API_VERSION := None\<rparr>) = ''v1''
   \<and> API_BASE_URL (e\<lparr>REACT_APP_API_URL := Some (c # s)\<rparr>) = c # s
   \<and> API_VERSION (e\<lparr>REACT_APP_API_VERSION := Some (c # s)\<rparr>) = c # s"
proof (intro conjI impI)
  assume "request_of e call = Inr cfg"
  then obtain resource where "url cfg = ''/'' @ resource"
      "baseURL cfg = API_BASE_URL e @ ''/api/'' @ API_VERSION e" "timeout cfg = 30000"
    using request_of_descriptor [of e call cfg] by blast
  then show "\<exists>resource. url cfg = ''/'' @ resource
          \<and> baseURL cfg @ url cfg = API_BASE_URL e @ ''/api/'' @ API_VERSION e @ ''/'' @ resource"
    and "timeout cfg = 30000"
    by simp_all
next
  assume "\<forall>ps. call = DatasetGetClauses (Some ps) \<longrightarrow>
              list_all (\<lambda>(k, v). \<not> overrides_toString v) ps"
  then show "\<exists>cfg'. request_of e call = Inr cfg'"
    by (rule request_of_returns)
qed (simp_all add: API_BASE_URL_def API_VERSION_def env_or_def)

theorem request_url_composition_witness:
  "request_of local_env (ContractList None None) = Inr (contractAPI_list local_env None None)
   \<and> baseURL (contractAPI_list local_env None None) @ url (contractAPI_list local_env None None) =
       ''http://localhost:8000/api/v1/contracts/list?skip=0&limit=100''
   \<and> timeout (contractAPI_list local_env None None) = 30000"
proof -
  let ?cfg = "contractAPI_list local_env None None"
  note t = request_url_composition [of local_env "ContractList None None" ?cfg]
  have r: "request_of local_env (ContractList None None) = Inr ?cfg"
    by simp
  have g: "\<forall>ps. ContractList None None = DatasetGetClauses (Some ps) \<longrightarrow>
             list_all (\<lambda>(k, v). \<not> overrides_toString v) ps"
    by simp
  from t g have "\<exists>cfg'. request_of local_env (ContractList None None) = Inr cfg'"
    by blast
  from t r obtain resource where u: "url ?cfg = ''/'' @ resource"
      "baseURL ?cfg @ url ?cfg =
         API_BASE_URL local_env @ ''/api/'' @ API_VERSION local_env @ ''/'' @ resource"
    and to: "timeout ?cfg = 30000"
    by blast
  have "url ?cfg = ''/contracts/list?skip=0&limit=100''"
    by (simp add: contractAPI_list_def api_get_fields number_toString_def digit_char_def
          integer_value_safe_int)
  with u(1) have "resource = ''contracts/list?skip=0&limit=100''"
    by simp
  with u(2) have "baseURL ?cfg @ url ?cfg =
       ''http://localhost:8000/api/v1/contracts/list?skip=0&limit=100''"
    by (simp add: API_BASE_URL_def API_VERSION_def env_or_def local_env_def)
  with r to show ?thesis by blast
qed

text \<open>
  C8: for every file, the body of \<^verbatim>\<open>upload(file)\<close> is a form data with exactly one part,
  named \<^verbatim>\<open>file\<close>, which is the given file; it is posted to \<^verbatim>\<open>/contracts/upload\<close> as
  \<^verbatim>\<open>multipart/form-data\<close>.
\<close>

theorem upload_single_file_part:
  "data (contractAPI_upload e file) = FormDataBody [(''file'', file)]
   \<and> method (contractAPI_upload e file) = POST
   \<and> url (contractAPI_upload e file) = ''/contracts/upload''
   \<and> headers (contractAPI_upload e file) = [(''Content-Type'', ''multipart/form-data'')]"
  by (simp add: contractAPI_upload_def FormData_append_def api_post_def api_def
        merge_headers_def)

text \<open>
  C9: the request handler returns the descriptor it was given and the response handler
  the response it was given; each error handler re-signals the very error it was given.
  So a request through the instance delivers exactly the transport's answer to the
  unchanged descriptor, and all that logging does is append lines to the console.
\<close>

theorem logging_is_diagnostic:
  "fst (request_fulfilled cfg con) = cfg
   \<and> fst (request_rejected err con) = err
   \<and> fst (response_fulfilled r con) = r
   \<and> fst (response_rejected err con) = err
   \<and> fst (api_request send cfg con) = send cfg
   \<and> (\<exists>entries. snd (api_request send cfg con) = con @ entries)"
  using api_request_outcome [of send cfg con] api_request_console [of send cfg con]
  by (simp add: request_fulfilled_def request_rejected_def response_fulfilled_def
        response_rejected_def)




end
